theory Spec2Isabelle
  imports Main "HOL-Library.Word" "HOL-Library.Multiset" "HOL-Library.Char_ord"
    "HOL-Library.List_Lexorder" "HOL-Library.AList"
begin

unbundle bit_operations_syntax

section \<open>binclude: the embedded file system and the bundle keys of its generator\<close>

text \<open>
  The development follows the two Go sources: package \<open>binclude\<close> (the virtual file
  system with its compression pipeline) and package \<open>bincludegen\<close> (the generator, of
  which the derivation of a bundle key is modelled).

  Conventions of the embedding.
  \<^item> A \<open>[]byte\<close> is a list of 8-bit words; a Go \<open>string\<close> is a \<open>string\<close>.
  \<^item> \<open>Files\<close> is a Go map from path to \<open>*File\<close>. It is an association list: the order of
    the list is the order in which one \<open>range\<close> over the map happens to enumerate it, which
    the Go runtime chooses afresh on every loop. The pointer stored under a key is
    identified with that key, so a handle (an \<open>http.File\<close> that is a \<open>*File\<close>) is the key of
    the record it points to, and every mutation through a handle is a mutation of the
    stored record. This is exact for stores in which different keys hold different
    pointers, which is how \<open>buildFS\<close> allocates them.
  \<^item> The package variable \<open>Debug\<close> is taken at its initial value \<open>false\<close>; with \<open>Debug\<close> set,
    \<open>Open\<close> hands every call to the host's \<open>os.Open\<close> and the store is not consulted.
  \<^item> Functions of other packages (gzip, mimetype, filepath, sort, os) are parameters of
    the definitions that call them, or are modelled after their documented behaviour
    where that is short (encoding/hex, bytes.Reader).
  \<^item> An error return and a run-time panic are both values of \<open>error\<close>.
\<close>

subsection \<open>Errors\<close>

type_synonym byte = "8 word"

datatype error =
    PathError string string string
  | InvalidByteError byte
  | ErrLength
  | Gzip_err
  | Reader_err
  | EOF
  | Seek_invalid_whence
  | Seek_negative_position
  | Host_error string
  | Panic_nil_dereference

subsection \<open>encoding/hex\<close>

definition hextable :: "byte list" where
  "hextable = map (\<lambda>c. of_nat (of_char c)) ''0123456789abcdef''"

definition hex_EncodeToString :: "byte list \<Rightarrow> byte list" where
  "hex_EncodeToString src =
     concat (map (\<lambda>v. [hextable ! unat (drop_bit 4 v), hextable ! unat (v AND 0x0f)]) src)"

definition fromHexChar :: "byte \<Rightarrow> byte option" where
  "fromHexChar c =
     (if 0x30 \<le> c \<and> c \<le> 0x39 then Some (c - 0x30)
      else if 0x61 \<le> c \<and> c \<le> 0x66 then Some (c - 0x61 + 10)
      else if 0x41 \<le> c \<and> c \<le> 0x46 then Some (c - 0x41 + 10)
      else None)"

fun hex_Decode :: "byte list \<Rightarrow> error + byte list" where
  "hex_Decode [] = Inr []"
| "hex_Decode [c] =
     (case fromHexChar c of None \<Rightarrow> Inl (InvalidByteError c) | Some _ \<Rightarrow> Inl ErrLength)"
| "hex_Decode (p # q # rest) =
     (case fromHexChar p of
        None \<Rightarrow> Inl (InvalidByteError p)
      | Some a \<Rightarrow>
          (case fromHexChar q of
             None \<Rightarrow> Inl (InvalidByteError q)
           | Some b \<Rightarrow>
               (case hex_Decode rest of
                  Inl e \<Rightarrow> Inl e
                | Inr ds \<Rightarrow> Inr ((push_bit 4 a OR b) # ds))))"

subsection \<open>File records\<close>

type_synonym FileMode = "32 word"

definition ModeDir :: FileMode where
  "ModeDir = push_bit 31 1"


definition IsDir :: "FileMode \<Rightarrow> bool" where
  "IsDir m = (m AND ModeDir \<noteq> 0)"


type_synonym Compression = int

definition None_Compression :: Compression where
  "None_Compression = 0"

definition Gzip :: Compression where
  "Gzip = 1"

text \<open>A \<open>bytes.Reader\<close>: the slice it reads and the current reading index.\<close>

record bytes_Reader =
  r_s :: "byte list"
  r_i :: int

text \<open>
  The struct \<open>File\<close>. \<open>reader\<close> is \<open>None\<close> for the nil interface value. \<open>fs\<close> is the
  back-reference to the owning \<open>FileSystem\<close>: \<open>False\<close> while it is nil, \<open>True\<close> once \<open>Open\<close>
  has set it to the file system the record is stored in.
\<close>

record File =
  Filename :: string
  Mode :: FileMode
  ModTime :: int
  Content :: "byte list"
  Compression :: Compression
  reader :: "bytes_Reader option"
  path :: string
  fs :: bool

type_synonym Files = "(string \<times> File) list"

subsection \<open>The compression pipeline\<close>

definition compressExcl :: "string list" where
  "compressExcl = [''application/x-7z-compressed'', ''application/zip'',
     ''application/x-bzip2'', ''application/gzip'', ''image/png'', ''image/jpg'',
     ''image/gif'']"

text \<open>\<open>detect\<close> stands for \<open>mimetype.Detect(content).String()\<close>.\<close>

definition shouldCompress :: "(byte list \<Rightarrow> string) \<Rightarrow> byte list \<Rightarrow> bool" where
  "shouldCompress detect content = (detect content \<notin> set compressExcl)"

text \<open>
  The writer chosen by \<open>Encode\<close>, as the pair of what \<open>Write\<close> returned as its error and
  what the buffer holds after \<open>Close\<close>. \<open>gz\<close> stands for a \<open>gzip.Writer\<close> over a
  \<open>bytes.Buffer\<close>; \<open>NopCloser\<close> writes the content through.
\<close>

definition NopCloser :: "byte list \<Rightarrow> error option \<times> byte list" where
  "NopCloser content = (None, content)"

definition writer ::
  "(byte list \<Rightarrow> error option \<times> byte list) \<Rightarrow> Compression \<Rightarrow> byte list
     \<Rightarrow> error option \<times> byte list" where
  "writer gz algo = (if algo = Gzip then gz else NopCloser)"

text \<open>
  \<open>Encode\<close> ranges over the map and mutates the records in place; it returns at the first
  write error, leaving the records it has already visited encoded. The result is the
  returned error (\<open>None\<close> for nil) and the store as the call leaves it.
\<close>

fun Encode ::
  "(byte list \<Rightarrow> error option \<times> byte list) \<Rightarrow> (byte list \<Rightarrow> string) \<Rightarrow> Compression
     \<Rightarrow> Files \<Rightarrow> error option \<times> Files" where
  "Encode gz detect algo [] = (None, [])"
| "Encode gz detect algo ((p, file) # rest) =
     (if IsDir (Mode file) \<or> \<not> shouldCompress detect (Content file)
      then (case Encode gz detect algo rest of (e, rest') \<Rightarrow> (e, (p, file) # rest'))
      else
        (case writer gz algo (Content file) of
           (Some err, b) \<Rightarrow> (Some err, (p, file) # rest)
         | (None, b) \<Rightarrow>
             (case Encode gz detect algo rest of
                (e, rest') \<Rightarrow>
                  (e, (p, file\<lparr>Compression := algo, Content := hex_EncodeToString b\<rparr>)
                        # rest'))))"

definition Compress ::
  "(byte list \<Rightarrow> error option \<times> byte list) \<Rightarrow> (byte list \<Rightarrow> string) \<Rightarrow> Compression
     \<Rightarrow> Files \<Rightarrow> error option \<times> Files" where
  "Compress gz detect algo files = Encode gz detect algo files"

text \<open>
  What \<open>gzip.NewReader\<close> followed by \<open>ioutil.ReadAll\<close> does with a byte sequence: the
  header is rejected, or reading the stream fails, or the stream decompresses.
\<close>

datatype gunzip_result = NewReader_failed | ReadAll_failed | Gunzipped "byte list"

fun Decompress :: "(byte list \<Rightarrow> gunzip_result) \<Rightarrow> Files \<Rightarrow> error option \<times> Files" where
  "Decompress gunz [] = (None, [])"
| "Decompress gunz ((p, file) # rest) =
     (case hex_Decode (Content file) of
        Inl err \<Rightarrow> (Some err, (p, file) # rest)
      | Inr dst \<Rightarrow>
          (if Compression file = Gzip
           then
             (case gunz dst of
                NewReader_failed \<Rightarrow> (Some Gzip_err, (p, file) # rest)
              | ReadAll_failed \<Rightarrow> (Some Reader_err, (p, file) # rest)
              | Gunzipped dst' \<Rightarrow>
                  (case Decompress gunz rest of
                     (e, rest') \<Rightarrow> (e, (p, file\<lparr>Content := dst'\<rparr>) # rest')))
           else
             (case Decompress gunz rest of
                (e, rest') \<Rightarrow> (e, (p, file\<lparr>Content := dst\<rparr>) # rest'))))"

subsection \<open>bytes.Reader\<close>

definition NewReader :: "byte list \<Rightarrow> bytes_Reader" where
  "NewReader b = \<lparr>r_s = b, r_i = 0\<rparr>"

text \<open>
  \<open>Read\<close> into a buffer of \<open>n\<close> bytes: \<open>io.EOF\<close> once the index has reached the end,
  otherwise the bytes copied, with the index advanced by their number.
\<close>

definition Reader_Read :: "bytes_Reader \<Rightarrow> nat \<Rightarrow> (error + byte list) \<times> bytes_Reader" where
  "Reader_Read r n =
     (if r_i r \<ge> int (length (r_s r)) then (Inl EOF, r)
      else
        (let d = take n (drop (nat (r_i r)) (r_s r))
         in (Inr d, r\<lparr>r_i := r_i r + int (length d)\<rparr>)))"

definition SeekStart :: int where "SeekStart = 0"
definition SeekCurrent :: int where "SeekCurrent = 1"
definition SeekEnd :: int where "SeekEnd = 2"

definition Reader_Seek :: "bytes_Reader \<Rightarrow> int \<Rightarrow> int \<Rightarrow> (error + int) \<times> bytes_Reader" where
  "Reader_Seek r offset whence =
     (if whence \<noteq> SeekStart \<and> whence \<noteq> SeekCurrent \<and> whence \<noteq> SeekEnd
      then (Inl Seek_invalid_whence, r)
      else
        (let abs = (if whence = SeekStart then offset
                    else if whence = SeekCurrent then r_i r + offset
                    else int (length (r_s r)) + offset)
         in if abs < 0 then (Inl Seek_negative_position, r)
            else (Inr abs, r\<lparr>r_i := abs\<rparr>)))"

text \<open>
  \<open>ioutil.ReadAll\<close> on a \<open>bytes.Reader\<close> calls \<open>Read\<close> until \<open>io.EOF\<close>: it returns what
  lies between the index and the end and leaves the index at the end.
\<close>

definition Reader_ReadAll :: "bytes_Reader \<Rightarrow> byte list \<times> bytes_Reader" where
  "Reader_ReadAll r =
     (if r_i r \<ge> int (length (r_s r)) then ([], r)
      else (drop (nat (r_i r)) (r_s r), r\<lparr>r_i := int (length (r_s r))\<rparr>))"

subsection \<open>The methods of \<open>File\<close> and \<open>FileInfo\<close>\<close>

record FileInfo =
  name :: string
  mode :: FileMode
  modtime :: int
  size_of :: int

text \<open>
  The methods take the record the receiver points to and return it as they leave it.
  A method called through a nil interface value (the \<open>reader\<close> of a closed file) panics.
\<close>

definition File_Read :: "File \<Rightarrow> nat \<Rightarrow> (error + byte list) \<times> File" where
  "File_Read f n =
     (case reader f of
        None \<Rightarrow> (Inl Panic_nil_dereference, f)
      | Some r \<Rightarrow> (case Reader_Read r n of (res, r') \<Rightarrow> (res, f\<lparr>reader := Some r'\<rparr>)))"


definition File_Close :: "File \<Rightarrow> File" where
  "File_Close f = f\<lparr>reader := None\<rparr>"

definition File_Size :: "File \<Rightarrow> int" where
  "File_Size f = int (length (Content f))"

definition File_Stat :: "File \<Rightarrow> FileInfo" where
  "File_Stat f = \<lparr>name = Filename f, mode = Mode f, modtime = ModTime f, size_of = File_Size f\<rparr>"

definition File_Seek :: "File \<Rightarrow> int \<Rightarrow> int \<Rightarrow> (error + int) \<times> File" where
  "File_Seek f offset whence =
     (case reader f of
        None \<Rightarrow> (Inl Panic_nil_dereference, f)
      | Some r \<Rightarrow>
          (case Reader_Seek r offset whence of (res, r') \<Rightarrow> (res, f\<lparr>reader := Some r'\<rparr>)))"

definition File_ReadAll :: "File \<Rightarrow> (error + byte list) \<times> File" where
  "File_ReadAll f =
     (case reader f of
        None \<Rightarrow> (Inl Panic_nil_dereference, f)
      | Some r \<Rightarrow> (case Reader_ReadAll r of (d, r') \<Rightarrow> (Inr d, f\<lparr>reader := Some r'\<rparr>)))"


subsection \<open>The file system\<close>

definition HasPrefix :: "string \<Rightarrow> string \<Rightarrow> bool" where
  "HasPrefix str pre = (length pre \<le> length str \<and> take (length pre) str = pre)"

definition HasSuffix :: "string \<Rightarrow> string \<Rightarrow> bool" where
  "HasSuffix str suf = (length suf \<le> length str \<and> drop (length str - length suf) str = suf)"

definition TrimPrefix :: "string \<Rightarrow> string \<Rightarrow> string" where
  "TrimPrefix str pre = (if HasPrefix str pre then drop (length pre) str else str)"

text \<open>
  A handle is the pointer \<open>Open\<close> returns: the pointer stored in the map, that is, the key
  of the record. \<open>Open\<close> writes the new reader, the path and the back-reference into the
  stored record. This is the body of \<open>Open\<close> after the test of \<open>Debug\<close>, which is false.
\<close>

type_synonym handle = string

definition Open :: "Files \<Rightarrow> string \<Rightarrow> (error + handle) \<times> Files" where
  "Open files nm =
     (let nm' = TrimPrefix nm ''./''
      in case map_of files nm' of
           Some f \<Rightarrow>
             (Inr nm',
              AList.update nm' (f\<lparr>reader := Some (NewReader (Content f)), path := nm', fs := True\<rparr>)
                files)
         | None \<Rightarrow> (Inl (PathError ''open'' nm' ''File does not exist in binclude map''), files))"

text \<open>The methods called through a handle; a handle that points to no record is nil.\<close>

definition Read :: "Files \<Rightarrow> handle \<Rightarrow> nat \<Rightarrow> (error + byte list) \<times> Files" where
  "Read files h n =
     (case map_of files h of
        None \<Rightarrow> (Inl Panic_nil_dereference, files)
      | Some f \<Rightarrow> (case File_Read f n of (res, f') \<Rightarrow> (res, AList.update h f' files)))"

definition Seek :: "Files \<Rightarrow> handle \<Rightarrow> int \<Rightarrow> int \<Rightarrow> (error + int) \<times> Files" where
  "Seek files h offset whence =
     (case map_of files h of
        None \<Rightarrow> (Inl Panic_nil_dereference, files)
      | Some f \<Rightarrow>
          (case File_Seek f offset whence of (res, f') \<Rightarrow> (res, AList.update h f' files)))"

definition Close :: "Files \<Rightarrow> handle \<Rightarrow> error option \<times> Files" where
  "Close files h =
     (case map_of files h of
        None \<Rightarrow> (Some Panic_nil_dereference, files)
      | Some f \<Rightarrow> (None, AList.update h (File_Close f) files))"

definition ReadAll :: "Files \<Rightarrow> handle \<Rightarrow> (error + byte list) \<times> Files" where
  "ReadAll files h =
     (case map_of files h of
        None \<Rightarrow> (Inl Panic_nil_dereference, files)
      | Some f \<Rightarrow> (case File_ReadAll f of (res, f') \<Rightarrow> (res, AList.update h f' files)))"

definition Stat_handle :: "Files \<Rightarrow> handle \<Rightarrow> error + FileInfo" where
  "Stat_handle files h =
     (case map_of files h of
        None \<Rightarrow> Inl Panic_nil_dereference
      | Some f \<Rightarrow> Inr (File_Stat f))"


text \<open>\<open>FileSystem.Stat\<close>: the deferred \<open>Close\<close> runs after \<open>f.Stat()\<close> has been evaluated.\<close>

definition Stat :: "Files \<Rightarrow> string \<Rightarrow> (error + FileInfo) \<times> Files" where
  "Stat files nm =
     (case Open files nm of
        (Inl err, files1) \<Rightarrow> (Inl err, files1)
      | (Inr f, files1) \<Rightarrow> (Stat_handle files1 f, snd (Close files1 f)))"

definition ReadFile :: "Files \<Rightarrow> string \<Rightarrow> (error + byte list) \<times> Files" where
  "ReadFile files filename =
     (case Open files filename of
        (Inl err, files1) \<Rightarrow> (Inl err, files1)
      | (Inr f, files1) \<Rightarrow>
          (case ReadAll files1 f of (res, files2) \<Rightarrow> (res, snd (Close files2 f))))"


subsection \<open>The host and \<open>CopyFile\<close>\<close>







subsection \<open>Sequences of calls\<close>





subsection \<open>The bundle key of \<open>buildFS\<close>\<close>

definition operatingSystems :: "string list" where
  "operatingSystems = [''linux'', ''windows'', ''darwin'', ''freebsd'', ''js'', ''plan9'',
     ''freebsd'', ''dragonfly'', ''openbsd'', ''solaris'', ''aix'', ''android'']"

definition archs :: "string list" where
  "archs = [''ppc64'', ''386'', ''amd64'', ''wasm'', ''arm'', ''ppc64le'', ''mips'', ''mips64'',
     ''mips64le'', ''mipsle'', ''s390x'', ''arm64'']"

text \<open>
  The value of \<open>buildTag\<close> with which \<open>buildFS\<close> walks the included path of a declaring
  file \<open>goFile\<close>: the two loops over \<open>archs\<close> and \<open>operatingSystems\<close>, neither of which
  breaks at a match, and the default.
\<close>

definition buildTag :: "string \<Rightarrow> string" where
  "buildTag goFile =
     (let tag0 = foldl (\<lambda>tag arch. if HasSuffix goFile (arch @ ''.go'') then ''_'' @ arch else tag)
                   [] archs;
          tag1 = foldl (\<lambda>tag sys. if HasSuffix goFile (sys @ tag @ ''.go'')
                                   then ''_'' @ sys @ tag else tag)
                   tag0 operatingSystems
      in if length tag1 = 0 then ''default'' else tag1)"

text \<open>
  The bundle key as the specification words it: the name before its \<open>.go\<close> extension ends
  with \<open>_<os>_<arch>\<close>, \<open>_<os>\<close> or \<open>_<arch>\<close>, and the key is that suffix; otherwise it is
  \<open>default\<close>.
\<close>

definition spec_suffixes :: "string list" where
  "spec_suffixes =
     concat (map (\<lambda>sys. map (\<lambda>arch. ''_'' @ sys @ ''_'' @ arch) archs) operatingSystems)
     @ map (\<lambda>sys. ''_'' @ sys) operatingSystems
     @ map (\<lambda>arch. ''_'' @ arch) archs"

definition spec_bundle_key :: "string \<Rightarrow> string" where
  "spec_bundle_key goFile =
     (let stem = (if HasSuffix goFile ''.go'' then take (length goFile - 3) goFile else goFile)
      in case filter (\<lambda>suf. HasSuffix stem suf) spec_suffixes of
           [] \<Rightarrow> ''default''
         | suf # _ \<Rightarrow> suf)"

subsection \<open>Contracts and instances of the library functions\<close>

text \<open>
  What the proofs below rely on of gzip and of \<open>sort.Slice\<close>: a \<open>gzip.Writer\<close> over a
  byte buffer does not fail and a \<open>gzip.Reader\<close> recovers what was written; \<open>sort.Slice\<close>
  with the comparison of \<open>ReadDir\<close> permutes the slice into ascending order of names.
\<close>

definition gzip_inverse ::
  "(byte list \<Rightarrow> error option \<times> byte list) \<Rightarrow> (byte list \<Rightarrow> gunzip_result) \<Rightarrow> bool" where
  "gzip_inverse gz gunz = (\<forall>x. \<exists>z. gz x = (None, z) \<and> gunz z = Gunzipped x)"


text \<open>
  Instances for the evaluation at concrete inputs. \<open>sniff\<close> recognises the PNG signature
  as \<open>mimetype.Detect\<close> does; \<open>frame_gz\<close> and \<open>frame_gunz\<close> put a two-byte header in front
  of the data and take it off again; \<open>slash_Dir\<close> is \<open>filepath.Dir\<close> on clean relative
  slash-separated paths; \<open>insertion_sort\<close> is the insertion sort that \<open>sort.Slice\<close> runs
  on a slice of at most twelve elements, which leaves entries of equal name in the order
  it found them.
\<close>

definition png_magic :: "byte list" where
  "png_magic = [0x89, 0x50, 0x4E, 0x47, 0x0D, 0x0A, 0x1A, 0x0A]"

definition sniff :: "byte list \<Rightarrow> string" where
  "sniff content = (if take 8 content = png_magic then ''image/png'' else ''text/plain'')"

definition frame_gz :: "byte list \<Rightarrow> error option \<times> byte list" where
  "frame_gz x = (None, 0x1f # 0x8b # x)"

definition frame_gunz :: "byte list \<Rightarrow> gunzip_result" where
  "frame_gunz z =
     (case z of
        a # b # x \<Rightarrow> if a = 0x1f \<and> b = 0x8b then Gunzipped x else NewReader_failed
      | _ \<Rightarrow> NewReader_failed)"




definition plain_file :: "string \<Rightarrow> byte list \<Rightarrow> File" where
  "plain_file nm c =
     \<lparr>Filename = nm, Mode = 0x1A4, ModTime = 0, Content = c, Compression = None_Compression,
      reader = None, path = [], fs = False\<rparr>"

definition directory :: "string \<Rightarrow> byte list \<Rightarrow> File" where
  "directory nm c =
     \<lparr>Filename = nm, Mode = ModeDir OR 0x1ED, ModTime = 0, Content = c,
      Compression = None_Compression, reader = None, path = [], fs = False\<rparr>"

definition ascii :: "string \<Rightarrow> byte list" where
  "ascii str = map (\<lambda>c. of_nat (of_char c)) str"

text \<open>
  The store of the specification's scenario (\<open>a.txt\<close> and \<open>dir/b.txt\<close>) with the record
  of its directory and a second file in it, in an order of enumeration that is not the
  order of the names; a store with two entries of one name in one directory; a host with
  no files and the umask 022.
\<close>

definition example_store :: Files where
  "example_store =
     [(''dir/c.txt'', plain_file ''c.txt'' (ascii ''!'')),
      (''a.txt'', plain_file ''a.txt'' (ascii ''hello'')),
      (''dir'', directory ''dir'' []),
      (''dir/b.txt'', plain_file ''b.txt'' (ascii ''world''))]"



text \<open>
  The state in which \<open>buildFS\<close> leaves the directory records of a store (no content, no
  compression tag), and the stores all of whose regular files \<open>shouldCompress\<close> accepts.
\<close>

definition directories_blank :: "Files \<Rightarrow> bool" where
  "directories_blank files =
     (\<forall>(p, f) \<in> set files. IsDir (Mode f) \<longrightarrow> Content f = [] \<and> Compression f \<noteq> Gzip)"

definition all_compressible :: "(byte list \<Rightarrow> string) \<Rightarrow> Files \<Rightarrow> bool" where
  "all_compressible detect files =
     (\<forall>(p, f) \<in> set files. \<not> IsDir (Mode f) \<longrightarrow> shouldCompress detect (Content f))"

definition contents :: "Files \<Rightarrow> (string \<times> byte list) list" where
  "contents files = map (\<lambda>(p, f). (p, Content f)) files"

definition tags :: "Files \<Rightarrow> (string \<times> Compression) list" where
  "tags files = map (\<lambda>(p, f). (p, Compression f)) files"



text \<open>The record a handle points to has been closed: its \<open>reader\<close> is nil.\<close>

definition closed_at :: "Files \<Rightarrow> handle \<Rightarrow> bool" where
  "closed_at files h = (\<exists>f. map_of files h = Some f \<and> reader f = None)"

section \<open>Properties\<close>

subsection \<open>Hexadecimal text\<close>

lemma low_nibble_take_bit: "(v::byte) AND 0x0f = take_bit 4 v"
  by (simp add: take_bit_eq_mask mask_eq_exp_minus_1)

lemma high_nibble_less: "unat (drop_bit 4 (v::byte)) < 16"
proof -
  have "unat v < 256" using unsigned_less[of v, where 'a=nat] by simp
  then show ?thesis by (simp add: unat_drop_bit_eq drop_bit_eq_div unat_div)
qed

lemma low_nibble_less: "unat ((v::byte) AND 0x0f) < 16"
  using take_bit_nat_less_exp[of 4 "unat v"]
  by (simp add: low_nibble_take_bit unsigned_take_bit_eq)

lemma nibbles_join: "push_bit 4 (drop_bit 4 (v::byte)) OR (v AND 0x0f) = v"
  unfolding low_nibble_take_bit
  by (simp add: bit_eq_iff bit_simps) (auto)

lemma fromHexChar_hextable: "n < 16 \<Longrightarrow> fromHexChar (hextable ! n) = Some (of_nat n)"
proof -
  assume "n < 16"
  then have "n \<in> {0,1,2,3,4,5,6,7,8,9,10,11,12,13,14,15}" by (simp; arith)
  then show ?thesis
    by (auto simp: hextable_def fromHexChar_def)
qed

lemma hex_Decode_byte:
  "hex_Decode (hextable ! unat (drop_bit 4 v) # hextable ! unat (v AND 0x0f) # rest) =
     (case hex_Decode rest of Inl e \<Rightarrow> Inl e | Inr ds \<Rightarrow> Inr (v # ds))"
proof -
  have hi: "fromHexChar (hextable ! unat (drop_bit 4 v)) = Some (drop_bit 4 v)"
    by (simp add: fromHexChar_hextable high_nibble_less)
  have lo: "fromHexChar (hextable ! unat (v AND 0x0f)) = Some (v AND 0x0f)"
    by (simp add: fromHexChar_hextable low_nibble_less)
  show ?thesis
    by (simp only: hex_Decode.simps hi lo option.case nibbles_join)
qed

lemma hex_Decode_Encode: "hex_Decode (hex_EncodeToString xs) = Inr xs"
proof (induction xs)
  case Nil
  show ?case by (simp add: hex_EncodeToString_def)
next
  case (Cons v xs)
  have "hex_EncodeToString (v # xs) =
      hextable ! unat (drop_bit 4 v) # hextable ! unat (v AND 0x0f) # hex_EncodeToString xs"
    by (simp add: hex_EncodeToString_def)
  then show ?case by (simp only: hex_Decode_byte Cons.IH sum.case)
qed

subsection \<open>Compress and Decompress\<close>

lemma Encode_then_Decompress:
  assumes "gzip_inverse gz gunz"
    and "directories_blank files" and "all_compressible detect files"
  shows "\<exists>files'. Encode gz detect Gzip files = (None, files') \<and>
          (\<exists>files''. Decompress gunz files' = (None, files'') \<and> contents files'' = contents files)"
  using assms(2,3)
proof (induction files)
  case Nil
  show ?case by (simp add: contents_def)
next
  case (Cons pf files)
  obtain p f where pf: "pf = (p, f)" by (cases pf)
  from Cons.prems have "directories_blank files" "all_compressible detect files"
    by (auto simp: directories_blank_def all_compressible_def)
  with Cons.IH obtain files' files'' where
    e: "Encode gz detect Gzip files = (None, files')" and
    d: "Decompress gunz files' = (None, files'')" and
    c: "contents files'' = contents files"
    by auto
  show ?case
  proof (cases "IsDir (Mode f)")
    case True
    with Cons.prems pf have "Content f = []" "Compression f \<noteq> Gzip"
      by (auto simp: directories_blank_def)
    with True e d c pf show ?thesis by (simp add: contents_def)
  next
    case False
    with Cons.prems pf have sc: "shouldCompress detect (Content f)"
      by (auto simp: all_compressible_def)
    from assms(1) obtain z where z: "gz (Content f) = (None, z)" "gunz z = Gunzipped (Content f)"
      unfolding gzip_inverse_def by blast
    with False sc e d c pf show ?thesis
      by (simp add: writer_def hex_Decode_Encode contents_def)
  qed
qed

lemma Encode_skips_excluded:
  "k < length files \<Longrightarrow> \<not> shouldCompress detect (Content (snd (files ! k))) \<Longrightarrow>
     snd (Encode gz detect algo files) ! k = files ! k"
proof (induction files arbitrary: k)
  case Nil
  then show ?case by simp
next
  case (Cons pf files)
  show ?case
  proof (cases k)
    case 0
    with Cons.prems show ?thesis by (cases pf) (auto split: prod.splits)
  next
    case (Suc j)
    with Cons show ?thesis
      by (cases pf) (auto split: prod.splits option.splits)
  qed
qed

lemma frame_gzip_inverse: "gzip_inverse frame_gz frame_gunz"
  by (simp add: gzip_inverse_def frame_gz_def frame_gunz_def)

text \<open>
  Claim C1, as amended. Let the directory records of a store be as \<open>buildFS\<close> leaves them
  (no content, not tagged Gzip) and let \<open>shouldCompress\<close> accept the content of every
  regular file. Then \<open>Compress(Gzip)\<close> succeeds, \<open>Decompress\<close> of its result succeeds, and
  every record holds, under its path, exactly the bytes it held before. Further, for any
  store and any algorithm, a record whose sniffed type is in the exclusion set is left by
  \<open>Compress\<close> exactly as it was.
\<close>

theorem compress_decompress_roundtrip:
  "(gzip_inverse gz gunz \<and> directories_blank files \<and> all_compressible detect files \<longrightarrow>
      (\<exists>files' files''. Compress gz detect Gzip files = (None, files') \<and>
         Decompress gunz files' = (None, files'') \<and> contents files'' = contents files)) \<and>
   (\<forall>k < length files. \<not> shouldCompress detect (Content (snd (files ! k))) \<longrightarrow>
      snd (Compress gz detect algo files) ! k = files ! k)"
  using Encode_then_Decompress[of gz gunz files detect]
    Encode_skips_excluded[of _ files detect gz algo]
  unfolding Compress_def by blast

text \<open>
  The theorem at a store with a text file, a directory and, in a second store, a PNG file.
\<close>

theorem compress_decompress_roundtrip_witness:
  "gzip_inverse frame_gz frame_gunz \<and>
   directories_blank [(''a.txt'', plain_file ''a.txt'' (ascii ''hello'')), (''dir'', directory ''dir'' [])] \<and>
   all_compressible sniff
     [(''a.txt'', plain_file ''a.txt'' (ascii ''hello'')), (''dir'', directory ''dir'' [])] \<and>
   (\<exists>files' files''.
      Compress frame_gz sniff Gzip
        [(''a.txt'', plain_file ''a.txt'' (ascii ''hello'')), (''dir'', directory ''dir'' [])]
        = (None, files') \<and>
      Decompress frame_gunz files' = (None, files'') \<and>
      contents files'' = [(''a.txt'', ascii ''hello''), (''dir'', [])]) \<and>
   snd (Compress frame_gz sniff Gzip
          [(''a.txt'', plain_file ''a.txt'' (ascii ''hello'')),
           (''p.png'', plain_file ''p.png'' png_magic)]) ! 1
     = (''p.png'', plain_file ''p.png'' png_magic)"
proof -
  have b: "directories_blank
      [(''a.txt'', plain_file ''a.txt'' (ascii ''hello'')), (''dir'', directory ''dir'' [])]"
    by (simp add: directories_blank_def plain_file_def directory_def None_Compression_def
        Gzip_def IsDir_def ModeDir_def)
  have c: "all_compressible sniff
      [(''a.txt'', plain_file ''a.txt'' (ascii ''hello'')), (''dir'', directory ''dir'' [])]"
    by (simp add: all_compressible_def) code_simp
  have d: "contents [(''a.txt'', plain_file ''a.txt'' (ascii ''hello'')), (''dir'', directory ''dir'' [])]
      = [(''a.txt'', ascii ''hello''), (''dir'', [])]"
    by (simp add: contents_def plain_file_def directory_def)
  have e: "\<not> shouldCompress sniff (Content (plain_file ''p.png'' png_magic))"
    by code_simp
  from compress_decompress_roundtrip[of frame_gz frame_gunz
      "[(''a.txt'', plain_file ''a.txt'' (ascii ''hello'')), (''dir'', directory ''dir'' [])]" sniff Gzip]
    frame_gzip_inverse b c d
  have first: "\<exists>files' files''.
      Compress frame_gz sniff Gzip
        [(''a.txt'', plain_file ''a.txt'' (ascii ''hello'')), (''dir'', directory ''dir'' [])]
        = (None, files') \<and>
      Decompress frame_gunz files' = (None, files'') \<and>
      contents files'' = [(''a.txt'', ascii ''hello''), (''dir'', [])]"
    by simp
  from compress_decompress_roundtrip[of frame_gz frame_gunz
      "[(''a.txt'', plain_file ''a.txt'' (ascii ''hello'')), (''p.png'', plain_file ''p.png'' png_magic)]"
      sniff Gzip] e
  have second: "snd (Compress frame_gz sniff Gzip
          [(''a.txt'', plain_file ''a.txt'' (ascii ''hello'')),
           (''p.png'', plain_file ''p.png'' png_magic)]) ! 1
     = (''p.png'', plain_file ''p.png'' png_magic)"
    by simp
  from frame_gzip_inverse b c first second show ?thesis by blast
qed

text \<open>
  Claim C1 as it is worded puts a condition on the regular files only. A directory record
  that holds the four bytes \<open>6162\<close> passes \<open>Compress\<close> untouched, and \<open>Decompress\<close> then
  replaces them by the two bytes \<open>ab\<close>; a directory record tagged Gzip with no content
  makes \<open>Decompress\<close> fail on the empty gzip stream.
\<close>

theorem compress_decompress_directory_counterexample:
  "all_compressible sniff [(''d'', directory ''d'' (ascii ''6162''))] \<and>
   Compress frame_gz sniff Gzip [(''d'', directory ''d'' (ascii ''6162''))]
     = (None, [(''d'', directory ''d'' (ascii ''6162''))]) \<and>
   Decompress frame_gunz [(''d'', directory ''d'' (ascii ''6162''))]
     = (None, [(''d'', directory ''d'' (ascii ''ab''))]) \<and>
   ascii ''6162'' \<noteq> ascii ''ab'' \<and>
   Compress frame_gz sniff Gzip [(''d'', (directory ''d'' [])\<lparr>Compression := Gzip\<rparr>)]
     = (None, [(''d'', (directory ''d'' [])\<lparr>Compression := Gzip\<rparr>)]) \<and>
   fst (Decompress frame_gunz [(''d'', (directory ''d'' [])\<lparr>Compression := Gzip\<rparr>)])
     = Some Gzip_err"
proof -
  have "all_compressible sniff [(''d'', directory ''d'' (ascii ''6162''))]"
    by (simp add: all_compressible_def) code_simp
  moreover have "Compress frame_gz sniff Gzip [(''d'', directory ''d'' (ascii ''6162''))]
     = (None, [(''d'', directory ''d'' (ascii ''6162''))])"
    by code_simp
  moreover have "Decompress frame_gunz [(''d'', directory ''d'' (ascii ''6162''))]
     = (None, [(''d'', directory ''d'' (ascii ''ab''))])"
    by code_simp
  moreover have "ascii ''6162'' \<noteq> ascii ''ab''"
    by (simp add: ascii_def)
  moreover have "Compress frame_gz sniff Gzip [(''d'', (directory ''d'' [])\<lparr>Compression := Gzip\<rparr>)]
     = (None, [(''d'', (directory ''d'' [])\<lparr>Compression := Gzip\<rparr>)])"
    by code_simp
  moreover have "fst (Decompress frame_gunz [(''d'', (directory ''d'' [])\<lparr>Compression := Gzip\<rparr>)])
     = Some Gzip_err"
    by code_simp
  ultimately show ?thesis by blast
qed

text \<open>
  Claim C2. The claim has \<open>Compress\<close> store an excluded file as the hexadecimal text of its
  content. In the source the test \<open>!shouldCompress(file.Content)\<close> continues the loop
  before the buffer is written and encoded, so the record keeps its raw bytes, while
  \<open>Decompress\<close> hex-decodes every record: on the eight bytes of the PNG signature
  \<open>Compress(Gzip)\<close> changes nothing, the content is not the sixteen characters
  \<open>89504e470d0a1a0a\<close>, and \<open>Decompress\<close> of the result fails at the byte \<open>0x89\<close>.
\<close>

theorem excluded_file_stays_raw:
  "sniff png_magic = ''image/png'' \<and>
   Compress frame_gz sniff Gzip [(''p.png'', plain_file ''p.png'' png_magic)]
     = (None, [(''p.png'', plain_file ''p.png'' png_magic)]) \<and>
   Compression (plain_file ''p.png'' png_magic) = None_Compression \<and>
   hex_EncodeToString png_magic = ascii ''89504e470d0a1a0a'' \<and>
   Content (plain_file ''p.png'' png_magic) \<noteq> ascii ''89504e470d0a1a0a'' \<and>
   Decompress frame_gunz [(''p.png'', plain_file ''p.png'' png_magic)]
     = (Some (InvalidByteError 0x89), [(''p.png'', plain_file ''p.png'' png_magic)])"
proof -
  have "sniff png_magic = ''image/png''" by code_simp
  moreover have "Compress frame_gz sniff Gzip [(''p.png'', plain_file ''p.png'' png_magic)]
     = (None, [(''p.png'', plain_file ''p.png'' png_magic)])" by code_simp
  moreover have "Compression (plain_file ''p.png'' png_magic) = None_Compression"
    by (simp add: plain_file_def)
  moreover have "hex_EncodeToString png_magic = ascii ''89504e470d0a1a0a''" by code_simp
  moreover have "Content (plain_file ''p.png'' png_magic) \<noteq> ascii ''89504e470d0a1a0a''"
    by (simp add: plain_file_def png_magic_def ascii_def)
  moreover have "Decompress frame_gunz [(''p.png'', plain_file ''p.png'' png_magic)]
     = (Some (InvalidByteError 0x89), [(''p.png'', plain_file ''p.png'' png_magic)])"
    by code_simp
  ultimately show ?thesis by blast
qed

lemma Decompress_keys: "map fst (snd (Decompress gunz files)) = map fst files"
  by (induction files) (auto split: prod.splits sum.splits gunzip_result.splits)

text \<open>
  Claim C10. \<open>Decompress\<close> never writes the compression tag: whether it returns nil or an
  error, every path carries afterwards the tag it carried before. A record tagged Gzip is
  still tagged Gzip, so the store is not back in its state before \<open>Compress\<close>, and a
  second \<open>Decompress\<close> finds the same tags as the first.
\<close>

theorem decompress_keeps_tags: "tags (snd (Decompress gunz files)) = tags files"
  unfolding tags_def
  by (induction files) (auto split: prod.splits sum.splits gunzip_result.splits)

subsection \<open>The bundle key\<close>

text \<open>
  Claim C3. The claim asks for the suffixes \<open>_<arch>\<close>, \<open>_<os>\<close> and \<open>_<os>_<arch>\<close> of the
  name before \<open>.go\<close>, as the README does (\<open>*_GOOS\<close>, \<open>*_GOARCH\<close>, \<open>*_GOOS_GOARCH\<close>).
  \<open>buildFS\<close> tests \<open>strings.HasSuffix(file.goFile, arch+".go")\<close>, without the
  underscore: the declaring file \<open>alarm.go\<close> gets the key \<open>_arm\<close>, where the claim gives
  \<open>default\<close>. On the two files the claim names, the source and the claim agree.
\<close>

theorem bundle_key_ignores_underscore:
  "buildTag ''alarm.go'' = ''_arm'' \<and> spec_bundle_key ''alarm.go'' = ''default'' \<and>
   buildTag ''net_linux.go'' = ''_linux'' \<and> spec_bundle_key ''net_linux.go'' = ''_linux'' \<and>
   buildTag ''net_windows_amd64.go'' = ''_windows_amd64'' \<and>
   spec_bundle_key ''net_windows_amd64.go'' = ''_windows_amd64''"
  by code_simp

subsection \<open>Open\<close>

lemma Open_absent:
  "map_of files (TrimPrefix nm ''./'') = None \<Longrightarrow>
     Open files nm =
       (Inl (PathError ''open'' (TrimPrefix nm ''./'') ''File does not exist in binclude map''), files)"
  by (simp add: Open_def Let_def)

lemma TrimPrefix_none: "\<not> HasPrefix p pre \<Longrightarrow> TrimPrefix p pre = p"
  by (simp add: TrimPrefix_def)

lemma TrimPrefix_append: "TrimPrefix (pre @ p) pre = p"
  by (simp add: TrimPrefix_def HasPrefix_def)

lemma Open_handle: "Open files nm = (Inr k, files1) \<Longrightarrow> k = TrimPrefix nm ''./''"
  by (auto simp: Open_def Let_def split: option.splits)

lemma Open_Inr:
  "Open files nm = (Inr h, files1) \<Longrightarrow>
     \<exists>f. map_of files h = Some f \<and>
        files1 = AList.update h (f\<lparr>reader := Some (NewReader (Content f)), path := h, fs := True\<rparr>) files"
  by (auto simp: Open_def Let_def split: option.splits)

lemma Open_stored:
  "Open files nm = (Inr h, files1) \<Longrightarrow> \<exists>f. map_of files1 h = Some f \<and> reader f \<noteq> None"
  by (auto simp: Open_def Let_def update_conv' split: option.splits)

text \<open>
  Claim C5, as amended. A name that, with one leading \<open>./\<close> taken off, is no key of the
  store makes \<open>Open\<close> return the path error and leave the store as it was. For a path \<open>p\<close>
  that does not itself begin with \<open>./\<close>, \<open>Open("./" + p)\<close> and \<open>Open(p)\<close> are the same
  call: the same result and the same store afterwards.
\<close>

theorem open_not_found_and_dot_slash:
  "(map_of files (TrimPrefix nm ''./'') = None \<longrightarrow>
      Open files nm =
        (Inl (PathError ''open'' (TrimPrefix nm ''./'') ''File does not exist in binclude map''),
         files)) \<and>
   (\<not> HasPrefix p ''./'' \<longrightarrow> Open files (''./'' @ p) = Open files p)"
  using TrimPrefix_append[of "''./''" p]
  by (simp add: Open_absent) (simp add: Open_def TrimPrefix_none)

theorem open_not_found_and_dot_slash_witness:
  "map_of [(''a.txt'', plain_file ''a.txt'' (ascii ''hello''))]
     (TrimPrefix ''./missing.txt'' ''./'') = None \<and>
   fst (Open [(''a.txt'', plain_file ''a.txt'' (ascii ''hello''))] ''./missing.txt'') =
     Inl (PathError ''open'' ''missing.txt'' ''File does not exist in binclude map'') \<and>
   \<not> HasPrefix ''a.txt'' ''./'' \<and>
   Open [(''a.txt'', plain_file ''a.txt'' (ascii ''hello''))] (''./'' @ ''a.txt'') =
     Open [(''a.txt'', plain_file ''a.txt'' (ascii ''hello''))] ''a.txt''"
proof -
  have a: "map_of [(''a.txt'', plain_file ''a.txt'' (ascii ''hello''))]
      (TrimPrefix ''./missing.txt'' ''./'') = None"
    by code_simp
  have b: "\<not> HasPrefix ''a.txt'' ''./''" by code_simp
  have c: "TrimPrefix ''./missing.txt'' ''./'' = ''missing.txt''" by code_simp
  from open_not_found_and_dot_slash[of "[(''a.txt'', plain_file ''a.txt'' (ascii ''hello''))]"
      "''./missing.txt''" "''a.txt''"] a b c
  show ?thesis by simp
qed

text \<open>
  Claim C5 as it is worded speaks of every path \<open>p\<close>. \<open>strings.TrimPrefix\<close> takes one
  \<open>./\<close> off: for \<open>p = "./a"\<close> the call \<open>Open("./" + p)\<close> looks up \<open>./a\<close> and fails, while
  \<open>Open(p)\<close> looks up \<open>a\<close> and succeeds.
\<close>

theorem open_dot_slash_counterexample:
  "fst (Open [(''a'', plain_file ''a'' [])] (''./'' @ ''./a'')) =
     Inl (PathError ''open'' ''./a'' ''File does not exist in binclude map'') \<and>
   fst (Open [(''a'', plain_file ''a'' [])] ''./a'') = Inr ''a''"
  by code_simp

text \<open>
  Claim C6. The claim gives every \<open>Open\<close> a cursor of its own. \<open>Open\<close> does build a new
  \<open>bytes.Reader\<close>, but stores it in the record of the map and returns the pointer to that
  record, so the handles of two calls on one path are one object. On the store
  \<open>{"a.txt": "hello"}\<close>: both calls return the same handle; the position seen through the
  first handle is 0; two bytes are then read through the second; the position seen
  through the first is 2.
\<close>

theorem open_shares_cursor:
  "(let st0 = [(''a.txt'', plain_file ''a.txt'' (ascii ''hello''))];
        (h1, st1) = Open st0 ''a.txt'';
        (h2, st2) = Open st1 ''a.txt'';
        (pos_before, st3) = Seek st2 ''a.txt'' 0 SeekCurrent;
        (got, st4) = Read st3 ''a.txt'' 2;
        (pos_after, st5) = Seek st4 ''a.txt'' 0 SeekCurrent
    in h1 = Inr ''a.txt'' \<and> h2 = Inr ''a.txt'' \<and> pos_before = Inr 0 \<and>
       got = Inr (ascii ''he'') \<and> pos_after = Inr 2)"
  by code_simp

subsection \<open>Closed handles\<close>


lemma closed_at_update_same:
  "closed_at (AList.update h v files) h = (reader v = None)"
  by (simp add: closed_at_def update_conv')

lemma Close_closed: "map_of files h = Some f \<Longrightarrow> closed_at (snd (Close files h)) h"
  by (simp add: Close_def closed_at_update_same File_Close_def)


lemma Read_closed: "closed_at files h \<Longrightarrow> Read files h n = (Inl Panic_nil_dereference, files)"
  by (auto simp: closed_at_def Read_def File_Read_def update_triv)











subsection \<open>Handles are the stored records\<close>

lemma Open_again:
  "Open files nm = (Inr h, files1) \<Longrightarrow> \<exists>files2. Open files1 nm = (Inr h, files2)"
  by (auto simp: Open_def Let_def update_conv' split: option.splits)

lemma Stat_after_Open:
  assumes "Open files nm = (Inr h, files1)"
  shows "closed_at (snd (Stat files1 nm)) h \<and> (\<exists>info. fst (Stat files1 nm) = Inr info)"
proof -
  from Open_again[OF assms] obtain files2 where o2: "Open files1 nm = (Inr h, files2)" by blast
  from Open_stored[OF o2] obtain f where f: "map_of files2 h = Some f" by blast
  then have "closed_at (snd (Close files2 h)) h" by (rule Close_closed)
  with o2 f show ?thesis by (simp add: Stat_def Stat_handle_def)
qed

lemma ReadAll_stored:
  "map_of files h = Some f \<Longrightarrow> reader f \<noteq> None \<Longrightarrow>
     \<exists>bytes f'. fst (ReadAll files h) = Inr bytes \<and> map_of (snd (ReadAll files h)) h = Some f'"
  by (auto simp: ReadAll_def File_ReadAll_def update_conv' split: prod.splits)

lemma ReadFile_after_Open:
  assumes "Open files nm = (Inr h, files1)"
  shows "closed_at (snd (ReadFile files1 nm)) h \<and> (\<exists>bytes. fst (ReadFile files1 nm) = Inr bytes)"
proof -
  from Open_again[OF assms] obtain files2 where o2: "Open files1 nm = (Inr h, files2)" by blast
  from Open_stored[OF o2] obtain f where f: "map_of files2 h = Some f" "reader f \<noteq> None" by blast
  from ReadAll_stored[OF f] obtain bytes f' where
    r: "fst (ReadAll files2 h) = Inr bytes" "map_of (snd (ReadAll files2 h)) h = Some f'" by blast
  from r(2) have "closed_at (snd (Close (snd (ReadAll files2 h)) h)) h" by (rule Close_closed)
  with o2 r show ?thesis by (cases "ReadAll files2 h") (simp add: ReadFile_def)
qed

lemma Read_open:
  "map_of files h = Some f \<Longrightarrow> reader f = Some (NewReader c) \<Longrightarrow>
     fst (Read files h n) = (if c = [] then Inl EOF else Inr (take n c))"
  by (simp add: Read_def File_Read_def Reader_Read_def NewReader_def Let_def split: prod.splits)

text \<open>
  Claim C9. The handle that \<open>Open(p)\<close> returns is the record stored under the path: the
  store holds, under the handle, the record with the new reader, and a \<open>Read\<close> through the
  handle yields the first bytes of the content (\<open>io.EOF\<close> for empty content).
  \<open>FileSystem.Stat(p)\<close> and \<open>FileSystem.ReadFile(p)\<close> succeed, and each of them closes that
  same record when it returns: afterwards the reader of the earlier handle is nil and a
  \<open>Read\<close> through it panics.
\<close>

theorem stat_closes_open_handle:
  "Open files p = (Inr h, files1) \<Longrightarrow>
     (\<exists>f. map_of files h = Some f \<and>
        map_of files1 h =
          Some (f\<lparr>reader := Some (NewReader (Content f)), path := h, fs := True\<rparr>) \<and>
        fst (Read files1 h n) = (if Content f = [] then Inl EOF else Inr (take n (Content f)))) \<and>
     (\<exists>info. fst (Stat files1 p) = Inr info) \<and>
     closed_at (snd (Stat files1 p)) h \<and>
     Read (snd (Stat files1 p)) h n = (Inl Panic_nil_dereference, snd (Stat files1 p)) \<and>
     (\<exists>bytes. fst (ReadFile files1 p) = Inr bytes) \<and>
     closed_at (snd (ReadFile files1 p)) h \<and>
     Read (snd (ReadFile files1 p)) h n = (Inl Panic_nil_dereference, snd (ReadFile files1 p))"
proof -
  assume o: "Open files p = (Inr h, files1)"
  from Open_Inr[OF o] obtain f where f: "map_of files h = Some f"
    "files1 = AList.update h (f\<lparr>reader := Some (NewReader (Content f)), path := h, fs := True\<rparr>) files"
    by blast
  from f(2) have m1: "map_of files1 h =
      Some (f\<lparr>reader := Some (NewReader (Content f)), path := h, fs := True\<rparr>)"
    by (simp add: update_conv')
  from Read_open[OF m1, of "Content f" n]
  have r1: "fst (Read files1 h n) = (if Content f = [] then Inl EOF else Inr (take n (Content f)))"
    by simp
  from Stat_after_Open[OF o] ReadFile_after_Open[OF o] f(1) m1 r1 show ?thesis
    by (simp add: Read_closed)
qed


theorem stat_closes_open_handle_witness:
  "fst (Open example_store ''./a.txt'') = Inr ''a.txt'' \<and>
   fst (Read (snd (Open example_store ''./a.txt'')) ''a.txt'' 3) = Inr (ascii ''hel'') \<and>
   closed_at (snd (Stat (snd (Open example_store ''./a.txt'')) ''./a.txt'')) ''a.txt'' \<and>
   fst (Read (snd (Stat (snd (Open example_store ''./a.txt'')) ''./a.txt'')) ''a.txt'' 3)
     = Inl Panic_nil_dereference \<and>
   fst (ReadFile (snd (Open example_store ''./a.txt'')) ''./a.txt'') = Inr (ascii ''hello'') \<and>
   fst (Read (snd (ReadFile (snd (Open example_store ''./a.txt'')) ''./a.txt'')) ''a.txt'' 3)
     = Inl Panic_nil_dereference"
proof -
  have o: "Open example_store ''./a.txt'' = (Inr ''a.txt'', snd (Open example_store ''./a.txt''))"
    by code_simp
  have o1: "fst (Open example_store ''./a.txt'') = Inr ''a.txt''"
    by (subst o) simp
  have r: "fst (Read (snd (Open example_store ''./a.txt'')) ''a.txt'' 3) = Inr (ascii ''hel'')"
    by code_simp
  have rf: "fst (ReadFile (snd (Open example_store ''./a.txt'')) ''./a.txt'') = Inr (ascii ''hello'')"
    by code_simp
  from stat_closes_open_handle[OF o, of 3] o1 r rf show ?thesis
    by (simp only: fst_conv simp_thms)
qed

subsection \<open>ReadDir\<close>


























subsection \<open>CopyFile\<close>







end
